theory Spec2Isabelle
  imports Complex_Main
begin

section \<open>Values\<close>

text \<open>
  Python strings are modelled as \<open>string\<close>, one \<open>char\<close> per code point (so the model
  covers the strings whose code points fit a \<open>char\<close>); slices count elements.

  A Python float is modelled by the exact rational value of the double, or one of the
  three special values. Comparison of doubles is exact, and the code only compares
  floats, it never computes with them.
\<close>

datatype pyfloat = Fin rat | PosInf | NegInf | NaN

text \<open>The values \<open>json.loads\<close> produces (and the ones the state dictionary holds).\<close>

datatype json =
    JNull
  | JBool bool
  | JInt int
  | JFloat pyfloat
  | JStr string
  | JArr "json list"
  | JObj "(string \<times> json) list"

datatype error =
    KeyError
  | TypeError
  | LLMError
  | EmbeddingError
  | RedisError
  | InvalidUpdateError

text \<open>\<open>a < b\<close> and \<open>a >= b\<close> on floats (IEEE: every comparison with NaN is false).\<close>

fun float_lt :: "pyfloat \<Rightarrow> pyfloat \<Rightarrow> bool" where
  "float_lt (Fin a) (Fin b) = (a < b)"
| "float_lt (Fin a) PosInf = True"
| "float_lt NegInf (Fin b) = True"
| "float_lt NegInf PosInf = True"
| "float_lt _ _ = False"

fun float_ge :: "pyfloat \<Rightarrow> pyfloat \<Rightarrow> bool" where
  "float_ge (Fin a) (Fin b) = (a \<ge> b)"
| "float_ge (Fin a) NegInf = True"
| "float_ge PosInf (Fin b) = True"
| "float_ge PosInf PosInf = True"
| "float_ge PosInf NegInf = True"
| "float_ge NegInf NegInf = True"
| "float_ge _ _ = False"

text \<open>
  The numeric reading of a value in a comparison with a float: \<open>bool\<close> is a subclass of
  \<open>int\<close>, and Python compares an \<open>int\<close> with a \<open>float\<close> exactly. Any other value makes
  the comparison raise \<open>TypeError\<close>.
\<close>

fun as_number :: "json \<Rightarrow> pyfloat option" where
  "as_number (JBool b) = Some (Fin (if b then 1 else 0))"
| "as_number (JInt i) = Some (Fin (of_int i))"
| "as_number (JFloat f) = Some f"
| "as_number _ = None"

definition py_lt :: "json \<Rightarrow> pyfloat \<Rightarrow> error + bool" where
  "py_lt v c = (case as_number v of None \<Rightarrow> Inl TypeError | Some f \<Rightarrow> Inr (float_lt f c))"

definition py_ge :: "json \<Rightarrow> pyfloat \<Rightarrow> error + bool" where
  "py_ge v c = (case as_number v of None \<Rightarrow> Inl TypeError | Some f \<Rightarrow> Inr (float_ge f c))"

text \<open>\<open>d.get(k, default)\<close> and \<open>d[k]\<close> on a dictionary held as an association list.\<close>

definition dict_get :: "(string \<times> json) list \<Rightarrow> string \<Rightarrow> json \<Rightarrow> json" where
  "dict_get d k dflt = (case map_of d k of None \<Rightarrow> dflt | Some v \<Rightarrow> v)"

definition dict_item :: "(string \<times> json) list \<Rightarrow> string \<Rightarrow> error + json" where
  "dict_item d k = (case map_of d k of None \<Rightarrow> Inl KeyError | Some v \<Rightarrow> Inr v)"

text \<open>The slice \<open>xs[:n]\<close>: a negative \<open>n\<close> counts from the end.\<close>

definition py_slice_to :: "'a list \<Rightarrow> int \<Rightarrow> 'a list" where
  "py_slice_to xs n = (if n < 0 then take (nat (int (length xs) + n)) xs else take (nat n) xs)"

section \<open>Data model\<close>

record Document =
  page_content :: string
  metadata :: "(string \<times> json) list"

record RetrievalConfig =
  max_docs :: int
  similarity_threshold :: pyfloat
  web_search_max_results :: int
  session_ttl :: int
  max_session_messages :: int

text \<open>
  The dictionary \<open>add_message\<close> stores. It is written with \<open>json.dumps\<close> and read back
  with \<open>json.loads\<close>; its values are strings, integers, lists of strings and values that
  came out of \<open>json.loads\<close>, on which the round trip is the identity, so the store holds
  the record itself.
\<close>

record message =
  timestamp :: string
  m_query :: string
  m_strategy_used :: json
  m_document_count :: nat
  m_reasoning :: json
  key_points :: "string list"

text \<open>
  The \<open>response_data\<close> dictionary built by \<open>_update_session_memory\<close>. It always has
  its four keys, so the defaults of \<open>response.get\<close> in \<open>add_message\<close> never apply.
\<close>

record response_data =
  rd_strategy_used :: json
  rd_document_count :: nat
  rd_reasoning :: json
  rd_documents :: "Document list"

section \<open>The session store\<close>

text \<open>
  The Redis commands the code issues, on a store that maps a key to its list. Redis has
  no empty list: a key whose list becomes empty is gone, and reading a missing key
  gives the empty list, so a missing key is the empty list here.
\<close>

type_synonym redis_lists = "string \<Rightarrow> message list"

text \<open>
  Index normalisation of LRANGE and LTRIM: negative indices count from the end, a start
  before the list is the first element, a stop after the list is the last element, and
  an empty range selects nothing.
\<close>

definition redis_range :: "'a list \<Rightarrow> int \<Rightarrow> int \<Rightarrow> 'a list" where
  "redis_range xs start stop =
     (let llen = int (length xs);
          start1 = (if start < 0 then llen + start else start);
          stop1 = (if stop < 0 then llen + stop else stop);
          start2 = (if start1 < 0 then 0 else start1)
      in if start2 > stop1 \<or> start2 \<ge> llen then []
         else let stop2 = (if stop1 \<ge> llen then llen - 1 else stop1)
              in take (nat (stop2 - start2 + 1)) (drop (nat start2) xs))"

definition lpush :: "redis_lists \<Rightarrow> string \<Rightarrow> message \<Rightarrow> redis_lists" where
  "lpush db key v = db(key := v # db key)"

definition ltrim :: "redis_lists \<Rightarrow> string \<Rightarrow> int \<Rightarrow> int \<Rightarrow> redis_lists" where
  "ltrim db key start stop = db(key := redis_range (db key) start stop)"

definition lrange :: "redis_lists \<Rightarrow> string \<Rightarrow> int \<Rightarrow> int \<Rightarrow> message list" where
  "lrange db key start stop = redis_range (db key) start stop"

definition delete :: "redis_lists \<Rightarrow> string \<Rightarrow> redis_lists" where
  "delete db key = db(key := [])"

text \<open>
  EXPIRE with a non-positive timeout deletes the key at once. A positive timeout only
  matters once time has passed; the model has no clock, so it describes reads that
  happen before the time-to-live is over.
\<close>

definition expire :: "redis_lists \<Rightarrow> string \<Rightarrow> int \<Rightarrow> redis_lists" where
  "expire db key ttl = (if ttl \<le> 0 then db(key := []) else db)"

text \<open>
  \<open>SessionMemory\<close>. No method catches anything, so a command that fails raises out of
  the method. A command fails when the store does not answer it: the store is
  unreachable, or it rejects the command (LTRIM and EXPIRE take signed 64-bit integers).
  Whether the one command of a read or of a clear is answered is \<open>up\<close>. An append
  issues three commands, one after the other, and \<open>answers\<close> is the number of them the
  store answers: the first one it does not answer raises, with the earlier ones done.
  \<open>fmt\<close> is Python's conversion of a value inside an f-string, and \<open>now\<close> is
  \<open>datetime.now().isoformat()\<close>.
\<close>

record SessionMemory =
  sm_session_ttl :: int
  max_messages :: int

definition get_session_key :: "string \<Rightarrow> string" where
  "get_session_key user_id = ''session:'' @ user_id"

definition extract_key_points :: "(json \<Rightarrow> string) \<Rightarrow> Document list \<Rightarrow> string list" where
  "extract_key_points fmt documents =
     (if documents = [] then []
      else map (\<lambda>doc. ''From '' @ fmt (dict_get (metadata doc) ''source'' (JStr ''unknown''))
                        @ '': '' @ py_slice_to (page_content doc) 200 @ ''...'')
               (py_slice_to documents 3))"

definition add_message ::
  "SessionMemory \<Rightarrow> (json \<Rightarrow> string) \<Rightarrow> string \<Rightarrow> nat \<Rightarrow> redis_lists \<Rightarrow>
   string \<Rightarrow> string \<Rightarrow> response_data \<Rightarrow> error option \<times> redis_lists" where
  "add_message sm fmt now answers db user_id query response =
     (let session_key = get_session_key user_id;
          message = \<lparr> timestamp = now,
                      m_query = query,
                      m_strategy_used = rd_strategy_used response,
                      m_document_count = rd_document_count response,
                      m_reasoning = rd_reasoning response,
                      key_points = extract_key_points fmt (rd_documents response) \<rparr>
      in if answers = 0 then (Some RedisError, db)
         else let db1 = lpush db session_key message
              in if answers = 1 then (Some RedisError, db1)
                 else let db2 = ltrim db1 session_key 0 (max_messages sm - 1)
                      in if answers = 2 then (Some RedisError, db2)
                         else (None, expire db2 session_key (sm_session_ttl sm)))"

definition get_conversation_context :: "bool \<Rightarrow> redis_lists \<Rightarrow> string \<Rightarrow> error + message list" where
  "get_conversation_context up db user_id =
     (if \<not> up then Inl RedisError else Inr (lrange db (get_session_key user_id) 0 (- 1)))"

definition clear_session :: "bool \<Rightarrow> redis_lists \<Rightarrow> string \<Rightarrow> error + redis_lists" where
  "clear_session up db user_id =
     (if \<not> up then Inl RedisError else Inr (delete db (get_session_key user_id)))"

section \<open>The outside world of one run\<close>

text \<open>
  What the language model answers, abstracted to what \<open>json.loads\<close> makes of
  \<open>response.content\<close>: the call raises, or the text is not JSON, or it is a JSON value.
\<close>

datatype loads = JSONDecodeError | Loaded json

datatype llm_reply = Raises | Response loads

type_synonym embedding = "pyfloat list"

text \<open>
  The \<open>metadata\<close> column of a row as \<open>similarity_search\<close> sees it: falsy (NULL or
  empty), a value on which \<open>json.loads\<close> or the \<open>**\<close> unpacking raises, or an object.
\<close>

datatype metadata_col = NoMetadata | BadMetadata | Metadata "(string \<times> json) list"

record row =
  content :: string
  row_metadata :: metadata_col
  source :: json
  similarity :: json

text \<open>
  Every collaborator the code calls, as the run finds it:
  \<^item> \<open>llm_invoke query summary\<close>: the answer of \<open>chain.invoke\<close>;
  \<^item> \<open>connection\<close>: whether \<open>PostgreSQLVectorStore._connect\<close> got a connection;
  \<^item> \<open>embed_query\<close>: the embedding of a query, \<open>None\<close> when the provider raises;
  \<^item> \<open>pg_select\<close>: the rows of the table ordered by distance to the embedding, each
    with its similarity, before LIMIT; \<open>None\<close> when the statement or the fetch raises;
  \<^item> \<open>search_tool_run\<close>: the text of the web search, \<open>None\<close> when the tool raises;
  \<^item> \<open>redis_up_read\<close>: whether the session store answers when the history is read;
  \<^item> \<open>redis_write_answers\<close>: how many of the three commands of the turn's write the
    session store answers;
  \<^item> \<open>now_iso\<close>: \<open>datetime.now().isoformat()\<close> at the write;
  \<^item> \<open>str_of\<close>: Python's conversion of a value inside an f-string.
\<close>

record world =
  llm_invoke :: "string \<Rightarrow> string \<Rightarrow> llm_reply"
  connection :: bool
  embed_query :: "string \<Rightarrow> embedding option"
  pg_select :: "embedding \<Rightarrow> row list option"
  search_tool_run :: "string \<Rightarrow> string option"
  redis_up_read :: bool
  redis_write_answers :: nat
  now_iso :: string
  str_of :: "json \<Rightarrow> string"

text \<open>The session store answers the whole write of the turn.\<close>

definition redis_up_write :: "world \<Rightarrow> bool" where
  "redis_up_write w \<longleftrightarrow> 3 \<le> redis_write_answers w"

section \<open>The retrieval backends\<close>

text \<open>
  \<open>PostgreSQLVectorStore.similarity_search\<close>. The whole query and the loop over the rows
  sit in one \<open>try\<close> whose handler returns the empty list. PostgreSQL rejects a negative
  LIMIT; a non-negative LIMIT keeps the first \<open>k\<close> rows. In the dictionary
  \<open>{'source': .., 'similarity': .., **metadata}\<close> the stored metadata wins, so it comes
  first in the association list.
\<close>

definition row_document :: "row \<Rightarrow> Document option" where
  "row_document r =
     (case row_metadata r of
        BadMetadata \<Rightarrow> None
      | NoMetadata \<Rightarrow>
          Some \<lparr> page_content = content r,
                 metadata = [(''source'', source r), (''similarity'', similarity r)] \<rparr>
      | Metadata m \<Rightarrow>
          Some \<lparr> page_content = content r,
                 metadata = m @ [(''source'', source r), (''similarity'', similarity r)] \<rparr>)"

fun rows_documents :: "row list \<Rightarrow> Document list option" where
  "rows_documents [] = Some []"
| "rows_documents (r # rs) =
     (case row_document r of
        None \<Rightarrow> None
      | Some doc \<Rightarrow> (case rows_documents rs of None \<Rightarrow> None | Some docs \<Rightarrow> Some (doc # docs)))"

definition similarity_search :: "world \<Rightarrow> embedding \<Rightarrow> int \<Rightarrow> Document list" where
  "similarity_search w query_embedding k =
     (if \<not> connection w then []
      else case pg_select w query_embedding of
             None \<Rightarrow> []
           | Some ranked \<Rightarrow>
               if k < 0 then []
               else (case rows_documents (take (nat k) ranked) of
                       None \<Rightarrow> []
                     | Some documents \<Rightarrow> documents))"

text \<open>
  The comprehension \<open>[doc for doc in documents if doc.metadata.get('similarity', 0) >=
  threshold]\<close>; the comparison raises on a similarity that is not a number.
\<close>

fun filter_similarity :: "pyfloat \<Rightarrow> Document list \<Rightarrow> error + Document list" where
  "filter_similarity threshold [] = Inr []"
| "filter_similarity threshold (doc # docs) =
     (case py_ge (dict_get (metadata doc) ''similarity'' (JInt 0)) threshold of
        Inl e \<Rightarrow> Inl e
      | Inr keep \<Rightarrow>
          (case filter_similarity threshold docs of
             Inl e \<Rightarrow> Inl e
           | Inr rest \<Rightarrow> Inr (if keep then doc # rest else rest)))"

text \<open>\<open>CustomDocumentRetriever._get_relevant_documents\<close>; \<open>embed_query\<close> is outside any \<open>try\<close>.\<close>

definition custom_get_relevant_documents ::
  "RetrievalConfig \<Rightarrow> world \<Rightarrow> string \<Rightarrow> error + Document list" where
  "custom_get_relevant_documents cfg w query =
     (if \<not> connection w then Inr []
      else case embed_query w query of
             None \<Rightarrow> Inl EmbeddingError
           | Some query_embedding \<Rightarrow>
               filter_similarity (similarity_threshold cfg)
                 (similarity_search w query_embedding (max_docs cfg)))"

text \<open>\<open>search_results.split('\n\n')\<close>: the separators are found from the left, without overlap.\<close>

fun split_nn :: "string \<Rightarrow> string \<Rightarrow> string list" where
  "split_nn acc [] = [rev acc]"
| "split_nn acc [c] = [rev (c # acc)]"
| "split_nn acc (c # d # s) =
     (if c = CHR 0x0A \<and> d = CHR 0x0A then rev acc # split_nn [] s
      else split_nn (c # acc) (d # s))"

text \<open>The characters \<open>str.strip()\<close> removes; \<open>result.strip()\<close> is true when another one occurs.\<close>

definition is_space :: "char \<Rightarrow> bool" where
  "is_space c \<longleftrightarrow> c \<in> set [CHR 0x09, CHR 0x0A, CHR 0x0B, CHR 0x0C, CHR 0x0D,
                             CHR 0x1C, CHR 0x1D, CHR 0x1E, CHR 0x1F, CHR 0x20,
                             CHR 0x85, CHR 0xA0]"

definition strip_nonempty :: "string \<Rightarrow> bool" where
  "strip_nonempty s \<longleftrightarrow> \<not> list_all is_space s"

definition web_document :: "string \<Rightarrow> nat \<times> string \<Rightarrow> Document" where
  "web_document query ir =
     \<lparr> page_content = snd ir,
       metadata = [(''source'', JStr ''web_search''),
                   (''rank'', JInt (int (fst ir) + 1)),
                   (''query'', JStr query)] \<rparr>"

text \<open>\<open>WebSearchRetriever._get_relevant_documents\<close>: the whole body is in a \<open>try\<close>.\<close>

definition web_get_relevant_documents :: "world \<Rightarrow> int \<Rightarrow> string \<Rightarrow> Document list" where
  "web_get_relevant_documents w max_results query =
     (case search_tool_run w query of
        None \<Rightarrow> []
      | Some search_results \<Rightarrow>
          if search_results = [] then []
          else let results = py_slice_to (split_nn [] search_results) max_results
               in map (web_document query)
                      (filter (\<lambda>ir. strip_nonempty (snd ir)) (enumerate 0 results)))"

section \<open>The orchestrator\<close>

record RetrieverState =
  query :: string
  user_id :: string
  documents :: "Document list"
  search_type :: json
  confidence :: json
  reasoning :: json
  context_used :: json
  conversation_history :: "message list"

text \<open>
  The calls a run makes to its collaborators, in order. The code keeps no such list: it
  is the trace of the run, kept so that "is invoked" can be stated.
\<close>

datatype call =
    HistoryRead string
  | Classify string string
  | IndexedSearch string
  | WebSearch string
  | HistoryWrite string

record run =
  st :: RetrieverState
  store :: redis_lists
  calls :: "call list"

text \<open>The dictionary returned by \<open>retrieve\<close>.\<close>

record RetrievalResult =
  r_query :: string
  r_user_id :: string
  r_documents :: "Document list"
  strategy_used :: json
  r_confidence :: json
  r_reasoning :: json
  r_context_used :: json
  document_count :: nat
  conversation_length :: nat

text \<open>The \<open>SessionMemory\<close> that \<open>IntelligentRetriever.__init__\<close> builds from the configuration.\<close>

definition session_memory :: "RetrievalConfig \<Rightarrow> SessionMemory" where
  "session_memory cfg =
     \<lparr> sm_session_ttl = session_ttl cfg, max_messages = max_session_messages cfg \<rparr>"

definition newline :: string where
  "newline = [CHR 0x0A]"

definition summarize_conversation :: "(json \<Rightarrow> string) \<Rightarrow> message list \<Rightarrow> string" where
  "summarize_conversation fmt history =
     (if history = [] then ''No previous conversation.''
      else ''Recent conversation topics:'' @ newline @
           concat (map (\<lambda>im. fmt (JInt (int (fst im))) @ ''. Query: ''
                              @ py_slice_to (m_query (snd im)) 100 @ ''...'' @ newline
                              @ ''   Strategy: '' @ fmt (m_strategy_used (snd im))
                              @ '', Documents: '' @ fmt (JInt (int (m_document_count (snd im))))
                              @ newline)
                       (enumerate 1 (py_slice_to history 5))))"

text \<open>The literal \<open>0.6\<close> of \<open>_route_decision\<close>: the double nearest to 6/10.\<close>

definition low_confidence_bound :: pyfloat where
  "low_confidence_bound = Fin (5404319552844595 / 9007199254740992)"

text \<open>
  \<open>_analyze_with_context\<close>. The history read and \<open>chain.invoke\<close> are outside the \<open>try\<close>;
  the \<open>try\<close> catches \<open>json.JSONDecodeError\<close> only, so a missing key (\<open>KeyError\<close>) or a
  decision that is not an object (\<open>TypeError\<close>) raises out of the node.
\<close>

definition analyze_with_context :: "world \<Rightarrow> run \<Rightarrow> error + run" where
  "analyze_with_context w r =
     (let state = st r; q = query state; uid = user_id state in
      case get_conversation_context (redis_up_read w) (store r) uid of
        Inl e \<Rightarrow> Inl e
      | Inr history \<Rightarrow>
          let context_summary = summarize_conversation (str_of w) history;
              calls1 = calls r @ [HistoryRead uid, Classify q context_summary]
          in case llm_invoke w q context_summary of
               Raises \<Rightarrow> Inl LLMError
             | Response JSONDecodeError \<Rightarrow>
                 Inr (r\<lparr> st := state\<lparr> search_type := JStr ''custom'',
                                       confidence := JFloat (Fin (1 / 2)),
                                       reasoning := JStr ''Default fallback to custom search'',
                                       context_used := JBool False,
                                       conversation_history := [] \<rparr>,
                         calls := calls1 \<rparr>)
             | Response (Loaded decision) \<Rightarrow>
                 (case decision of
                    JObj d \<Rightarrow>
                      (case dict_item d ''strategy'' of
                         Inl e \<Rightarrow> Inl e
                       | Inr strategy \<Rightarrow>
                      (case dict_item d ''confidence'' of
                         Inl e \<Rightarrow> Inl e
                       | Inr conf \<Rightarrow>
                      (case dict_item d ''reasoning'' of
                         Inl e \<Rightarrow> Inl e
                       | Inr reason \<Rightarrow>
                           Inr (r\<lparr> st := state\<lparr> search_type := strategy,
                                                 confidence := conf,
                                                 reasoning := reason,
                                                 context_used := dict_get d ''context_used'' (JBool False),
                                                 conversation_history := history \<rparr>,
                                   calls := calls1 \<rparr>))))
                  | _ \<Rightarrow> Inl TypeError))"

text \<open>\<open>_route_decision\<close>: the name of the next node.\<close>

definition route_decision :: "RetrieverState \<Rightarrow> error + json" where
  "route_decision state =
     (let strategy = search_type state; conf = confidence state in
      case py_lt conf low_confidence_bound of
        Inl e \<Rightarrow> Inl e
      | Inr low \<Rightarrow> Inr (if low then JStr ''both'' else strategy))"

definition custom_retrieve :: "RetrievalConfig \<Rightarrow> world \<Rightarrow> run \<Rightarrow> error + run" where
  "custom_retrieve cfg w r =
     (let q = query (st r) in
      case custom_get_relevant_documents cfg w q of
        Inl e \<Rightarrow> Inl e
      | Inr docs \<Rightarrow> Inr (r\<lparr> st := (st r)\<lparr> documents := docs \<rparr>,
                             calls := calls r @ [IndexedSearch q] \<rparr>))"

definition web_retrieve :: "RetrievalConfig \<Rightarrow> world \<Rightarrow> run \<Rightarrow> error + run" where
  "web_retrieve cfg w r =
     (let q = query (st r);
          docs = web_get_relevant_documents w (web_search_max_results cfg) q
      in Inr (r\<lparr> st := (st r)\<lparr> documents := docs \<rparr>, calls := calls r @ [WebSearch q] \<rparr>))"

text \<open>
  \<open>_combine_results\<close> looks at \<open>state["search_type"]\<close>, the strategy the classifier
  named, not at the route that was taken.
\<close>

definition combine_results :: "RetrievalConfig \<Rightarrow> world \<Rightarrow> run \<Rightarrow> error + run" where
  "combine_results cfg w r =
     (let q = query (st r) in
      if search_type (st r) = JStr ''both'' then
        (case custom_get_relevant_documents cfg w q of
           Inl e \<Rightarrow> Inl e
         | Inr custom_docs \<Rightarrow>
             let web_docs = web_get_relevant_documents w (web_search_max_results cfg) q;
                 combined_docs = custom_docs @ web_docs
             in Inr (r\<lparr> st := (st r)\<lparr> documents := py_slice_to combined_docs (max_docs cfg) \<rparr>,
                        calls := calls r @ [IndexedSearch q, WebSearch q] \<rparr>))
      else Inr (r\<lparr> st := (st r)\<lparr> documents := documents (st r) \<rparr> \<rparr>))"

text \<open>
  \<open>_update_session_memory\<close>. When the write raises, the store stays as the commands
  before the failing one left it.
\<close>

definition update_session_memory ::
  "RetrievalConfig \<Rightarrow> world \<Rightarrow> run \<Rightarrow> (error \<times> redis_lists) + run" where
  "update_session_memory cfg w r =
     (let state = st r; uid = user_id state;
          response = \<lparr> rd_strategy_used = search_type state,
                       rd_document_count = length (documents state),
                       rd_reasoning = reasoning state,
                       rd_documents = documents state \<rparr>
      in case add_message (session_memory cfg) (str_of w) (now_iso w) (redis_write_answers w)
                (store r) uid (query state) response of
           (Some e, db) \<Rightarrow> Inl (e, db)
         | (None, db) \<Rightarrow> Inr (r\<lparr> store := db, calls := calls r @ [HistoryWrite uid] \<rparr>))"

text \<open>
  The conditional edge out of \<open>analyze_context\<close>. The graph engine takes what
  \<open>_route_decision\<close> returns as one route, or as a list of routes when it is a list,
  and looks each route up in the mapping \<open>{"custom": "custom_retrieve", "web":
  "web_retrieve", "both": "combine"}\<close>: a route that is not a key raises \<open>KeyError\<close>, one
  that cannot be hashed (a list, an object) \<open>TypeError\<close>.
\<close>

datatype node = CustomRetrieve | WebRetrieve | Combine

fun path_map :: "json \<Rightarrow> error + node" where
  "path_map (JStr s) =
     (if s = ''custom'' then Inr CustomRetrieve
      else if s = ''web'' then Inr WebRetrieve
      else if s = ''both'' then Inr Combine
      else Inl KeyError)"
| "path_map (JArr xs) = Inl TypeError"
| "path_map (JObj d) = Inl TypeError"
| "path_map v = Inl KeyError"

fun destinations :: "json list \<Rightarrow> error + node list" where
  "destinations [] = Inr []"
| "destinations (r # rs) =
     (case path_map r of
        Inl e \<Rightarrow> Inl e
      | Inr n \<Rightarrow> (case destinations rs of Inl e \<Rightarrow> Inl e | Inr ns \<Rightarrow> Inr (n # ns)))"

definition path_results :: "json \<Rightarrow> json list" where
  "path_results route = (case route of JArr rs \<Rightarrow> rs | _ \<Rightarrow> [route])"

text \<open>
  The graph of \<open>_build_graph\<close>: entry \<open>analyze_context\<close>, then the nodes the conditional
  edge names; both retrieval nodes lead to \<open>combine\<close>, then \<open>update_memory\<close>, then the
  end. An exception in a node ends the run with that exception. The nodes named are
  triggered once each, however often they are named:
  \<^item> none (the route is the empty list): no node follows, the run is over after
    \<open>analyze_context\<close> and \<open>update_memory\<close> never runs;
  \<^item> one: the run follows its path;
  \<^item> several: they run in the same step and each returns the whole state, which the
    engine refuses (\<open>InvalidUpdateError\<close>: a key of the state takes one value per
    step), unless \<open>custom_retrieve\<close>, the only one of them that can raise, raised first.
\<close>

definition graph_invoke ::
  "RetrievalConfig \<Rightarrow> world \<Rightarrow> run \<Rightarrow> (error \<times> redis_lists) + run" where
  "graph_invoke cfg w r0 =
     (case analyze_with_context w r0 of
        Inl e \<Rightarrow> Inl (e, store r0)
      | Inr r1 \<Rightarrow>
     (case route_decision (st r1) of
        Inl e \<Rightarrow> Inl (e, store r0)
      | Inr route \<Rightarrow>
     (case destinations (path_results route) of
        Inl e \<Rightarrow> Inl (e, store r0)
      | Inr dests \<Rightarrow>
     (case remdups dests of
        [] \<Rightarrow> Inr r1
      | [dest] \<Rightarrow>
          (case (case dest of
                   CustomRetrieve \<Rightarrow> custom_retrieve cfg w r1
                 | WebRetrieve \<Rightarrow> web_retrieve cfg w r1
                 | Combine \<Rightarrow> Inr r1) of
             Inl e \<Rightarrow> Inl (e, store r0)
           | Inr r2 \<Rightarrow>
          (case combine_results cfg w r2 of
             Inl e \<Rightarrow> Inl (e, store r0)
           | Inr r3 \<Rightarrow> update_session_memory cfg w r3))
      | dest # dest' # others \<Rightarrow>
          (if CustomRetrieve \<in> set dests
           then (case custom_retrieve cfg w r1 of
                   Inl e \<Rightarrow> Inl (e, store r0)
                 | Inr r2 \<Rightarrow> Inl (InvalidUpdateError, store r0))
           else Inl (InvalidUpdateError, store r0))))))"

text \<open>
  \<open>retrieve\<close>. \<open>user_id\<close> is \<open>None\<close> when the caller leaves the argument out. The result
  comes with the session store and the trace of calls after the run; an exception
  comes with the session store the run left (only a failing write can have changed it).
\<close>

definition retrieve ::
  "RetrievalConfig \<Rightarrow> world \<Rightarrow> redis_lists \<Rightarrow> string \<Rightarrow> string option \<Rightarrow>
   (error \<times> redis_lists) + (RetrievalResult \<times> redis_lists \<times> call list)" where
  "retrieve cfg w db q user_id_arg =
     (let uid = (case user_id_arg of None \<Rightarrow> ''default_user'' | Some u \<Rightarrow> u);
          initial_state = \<lparr> query = q, user_id = uid, documents = [],
                            search_type = JStr [], confidence = JFloat (Fin 0),
                            reasoning = JStr [], context_used = JBool False,
                            conversation_history = [] \<rparr>
      in case graph_invoke cfg w \<lparr> st = initial_state, store = db, calls = [] \<rparr> of
           Inl failure \<Rightarrow> Inl failure
         | Inr final \<Rightarrow>
             Inr (\<lparr> r_query = q,
                    r_user_id = uid,
                    r_documents = documents (st final),
                    strategy_used = search_type (st final),
                    r_confidence = confidence (st final),
                    r_reasoning = reasoning (st final),
                    r_context_used = context_used (st final),
                    document_count = length (documents (st final)),
                    conversation_length = length (conversation_history (st final)) \<rparr>,
                  store final, calls final))"

text \<open>\<open>clear_user_session\<close> and \<open>get_user_conversation\<close>.\<close>

definition clear_user_session :: "bool \<Rightarrow> redis_lists \<Rightarrow> string \<Rightarrow> error + redis_lists" where
  "clear_user_session up db uid = clear_session up db uid"

definition get_user_conversation :: "bool \<Rightarrow> redis_lists \<Rightarrow> string \<Rightarrow> error + message list" where
  "get_user_conversation up db uid = get_conversation_context up db uid"

section \<open>Reading the outcome of a run\<close>

type_synonym outcome =
  "(error \<times> redis_lists) + (RetrievalResult \<times> redis_lists \<times> call list)"

definition returned :: "outcome \<Rightarrow> RetrievalResult option" where
  "returned out = (case out of Inl x \<Rightarrow> None | Inr x \<Rightarrow> Some (fst x))"

definition raised :: "outcome \<Rightarrow> error option" where
  "raised out = (case out of Inl x \<Rightarrow> Some (fst x) | Inr x \<Rightarrow> None)"

definition calls_made :: "outcome \<Rightarrow> call list option" where
  "calls_made out = (case out of Inl x \<Rightarrow> None | Inr x \<Rightarrow> Some (snd (snd x)))"

text \<open>The history of a user, read from the store a run that returned has left.\<close>

definition history_after :: "outcome \<Rightarrow> string \<Rightarrow> message list option" where
  "history_after out uid =
     (case out of
        Inl x \<Rightarrow> None
      | Inr x \<Rightarrow> (case get_conversation_context True (fst (snd x)) uid of
                    Inl e \<Rightarrow> None
                  | Inr history \<Rightarrow> Some history))"

text \<open>
  A sequence of calls of \<open>add_message\<close>, each with its own clock reading and number
  of commands the store answers; a call that raises leaves the store as its failing
  command found it. \<open>appended_message\<close> is the record a call stores.
\<close>

record append_args =
  a_now :: string
  a_answers :: nat
  a_user_id :: string
  a_query :: string
  a_response :: response_data

definition appended_message :: "(json \<Rightarrow> string) \<Rightarrow> append_args \<Rightarrow> message" where
  "appended_message fmt a =
     \<lparr> timestamp = a_now a,
       m_query = a_query a,
       m_strategy_used = rd_strategy_used (a_response a),
       m_document_count = rd_document_count (a_response a),
       m_reasoning = rd_reasoning (a_response a),
       key_points = extract_key_points fmt (rd_documents (a_response a)) \<rparr>"


section \<open>Example worlds\<close>

text \<open>
  \<open>str()\<close> on the values the examples format: strings, \<open>None\<close>, booleans and the
  integers 0 to 9. The examples format no other value.
\<close>

fun example_str :: "json \<Rightarrow> string" where
  "example_str (JStr s) = s"
| "example_str JNull = ''None''"
| "example_str (JBool b) = (if b then ''True'' else ''False'')"
| "example_str (JInt i) = (if 0 \<le> i \<and> i < 10 then [''0123456789'' ! nat i] else [])"
| "example_str _ = []"

definition empty_store :: redis_lists where
  "empty_store = (\<lambda>key. [])"

text \<open>The defaults of \<open>RetrievalConfig\<close>; the threshold is the double 0.7.\<close>

definition default_config :: RetrievalConfig where
  "default_config =
     \<lparr> max_docs = 5,
       similarity_threshold = Fin (3152519739159347 / 4503599627370496),
       web_search_max_results = 3,
       session_ttl = 1800,
       max_session_messages = 10 \<rparr>"

definition decision :: "string \<Rightarrow> rat \<Rightarrow> json" where
  "decision strategy conf =
     JObj [(''strategy'', JStr strategy), (''confidence'', JFloat (Fin conf)),
           (''reasoning'', JStr ''because''), (''context_used'', JBool False)]"

definition example_row :: "string \<Rightarrow> rat \<Rightarrow> row" where
  "example_row text sim =
     \<lparr> content = text, row_metadata = NoMetadata, source = JStr ''plan.txt'',
       similarity = JFloat (Fin sim) \<rparr>"

text \<open>
  A world in which everything works: the classifier answers \<open>web\<close> with confidence 0.9
  (the double), the index ranks three rows above the threshold, and the web search
  returns two paragraphs.
\<close>

definition example_world :: world where
  "example_world =
     \<lparr> llm_invoke = (\<lambda>q summary. Response (Loaded (decision ''web'' (8106479329266893 / 9007199254740992)))),
       connection = True,
       embed_query = (\<lambda>q. Some []),
       pg_select = (\<lambda>e. Some [example_row ''one'' (15 / 16), example_row ''two'' (7 / 8),
                                example_row ''three'' (3 / 4)]),
       search_tool_run = (\<lambda>q. Some (''alpha'' @ [CHR 0x0A, CHR 0x0A] @ ''beta'')),
       redis_up_read = True,
       redis_write_answers = 3,
       now_iso = ''2024-05-01T12:00:00'',
       str_of = example_str \<rparr>"

definition example_message :: message where
  "example_message =
     \<lparr> timestamp = ''2024-05-01T11:00:00'', m_query = ''earlier question'',
       m_strategy_used = JStr ''web'', m_document_count = 2, m_reasoning = JStr ''because'',
       key_points = [] \<rparr>"

definition example_response :: response_data where
  "example_response =
     \<lparr> rd_strategy_used = JStr ''web'', rd_document_count = 0, rd_reasoning = JStr ''because'',
       rd_documents = [] \<rparr>"

definition example_session :: SessionMemory where
  "example_session = \<lparr> sm_session_ttl = 1800, max_messages = 2 \<rparr>"

definition example_append :: "string \<Rightarrow> append_args" where
  "example_append q =
     \<lparr> a_now = ''2024-05-01T12:00:00'', a_answers = 3, a_user_id = ''u'', a_query = q,
       a_response = example_response \<rparr>"

definition example_turn :: "string \<Rightarrow> message" where
  "example_turn q =
     \<lparr> timestamp = ''2024-05-01T12:00:00'', m_query = q, m_strategy_used = JStr ''web'',
       m_document_count = 0, m_reasoning = JStr ''because'', key_points = [] \<rparr>"

definition busy_store :: redis_lists where
  "busy_store = empty_store(''session:u'' := [example_message])"

definition example_document :: "string \<Rightarrow> rat \<Rightarrow> Document" where
  "example_document text sim =
     \<lparr> page_content = text,
       metadata = [(''source'', JStr ''plan.txt''), (''similarity'', JFloat (Fin sim))] \<rparr>"

definition example_web_document :: "string \<Rightarrow> int \<Rightarrow> string \<Rightarrow> Document" where
  "example_web_document text rank q =
     \<lparr> page_content = text,
       metadata = [(''source'', JStr ''web_search''), (''rank'', JInt rank), (''query'', JStr q)] \<rparr>"

text \<open>The classifier names \<open>custom\<close> with confidence 0.4 (the double).\<close>

definition hedging_world :: world where
  "hedging_world =
     example_world\<lparr> llm_invoke :=
       (\<lambda>q summary. Response (Loaded (decision ''custom'' (3602879701896397 / 9007199254740992)))) \<rparr>"

text \<open>Worlds that differ from \<open>example_world\<close> in one collaborator.\<close>

definition failing_llm_world :: world where
  "failing_llm_world = example_world\<lparr> llm_invoke := (\<lambda>q summary. Raises) \<rparr>"

definition bad_json_world :: world where
  "bad_json_world = example_world\<lparr> llm_invoke := (\<lambda>q summary. Response JSONDecodeError) \<rparr>"

definition partial_decision_world :: world where
  "partial_decision_world =
     example_world\<lparr> llm_invoke :=
       (\<lambda>q summary. Response (Loaded (JObj [(''strategy'', JStr ''web'')]))) \<rparr>"

text \<open>The classifier names a list of strategies, with confidence 0.9 (the double).\<close>

definition listed_decision :: "json list \<Rightarrow> json" where
  "listed_decision strategies =
     JObj [(''strategy'', JArr strategies),
           (''confidence'', JFloat (Fin (8106479329266893 / 9007199254740992))),
           (''reasoning'', JStr ''because''), (''context_used'', JBool False)]"

definition listed_world :: "json list \<Rightarrow> world" where
  "listed_world strategies =
     example_world\<lparr> llm_invoke := (\<lambda>q summary. Response (Loaded (listed_decision strategies))) \<rparr>"

definition store_down_world :: world where
  "store_down_world = example_world\<lparr> redis_write_answers := 0 \<rparr>"

definition small_config :: RetrievalConfig where
  "small_config = default_config\<lparr> max_docs := 2 \<rparr>"

definition no_embedding_world :: world where
  "no_embedding_world =
     example_world\<lparr> llm_invoke :=
         (\<lambda>q summary. Response (Loaded (decision ''custom'' (8106479329266893 / 9007199254740992)))),
       embed_query := (\<lambda>q. None) \<rparr>"

definition mixed_world :: world where
  "mixed_world =
     example_world\<lparr> pg_select :=
       (\<lambda>e. Some [example_row ''one'' (15 / 16), example_row ''low'' (1 / 2),
                   example_row ''three'' (3 / 4)]) \<rparr>"

definition three_paragraph_world :: world where
  "three_paragraph_world =
     example_world\<lparr> search_tool_run :=
       (\<lambda>q. Some (''alpha'' @ [CHR 0x0A, CHR 0x0A] @ ''beta'' @ [CHR 0x0A, CHR 0x0A] @ ''gamma'')) \<rparr>"

definition example_result :: RetrievalResult where
  "example_result =
     \<lparr> r_query = ''q'', r_user_id = ''u'',
       r_documents = [example_web_document ''alpha'' 1 ''q'', example_web_document ''beta'' 2 ''q''],
       strategy_used = JStr ''web'',
       r_confidence = JFloat (Fin (8106479329266893 / 9007199254740992)),
       r_reasoning = JStr ''because'', r_context_used = JBool False,
       document_count = 2, conversation_length = 0 \<rparr>"

section \<open>Unfolding the model\<close>

lemmas run_defs = retrieve_def graph_invoke_def analyze_with_context_def
  get_conversation_context_def lrange_def redis_range_def dict_item_def dict_get_def
  route_decision_def py_lt_def py_ge_def low_confidence_bound_def web_retrieve_def
  custom_retrieve_def combine_results_def update_session_memory_def add_message_def
  web_get_relevant_documents_def custom_get_relevant_documents_def similarity_search_def
  row_document_def py_slice_to_def strip_nonempty_def is_space_def web_document_def
  session_memory_def summarize_conversation_def extract_key_points_def
  lpush_def ltrim_def expire_def get_session_key_def newline_def path_results_def
  redis_up_write_def appended_message_def Let_def enumerate_eq_zip

lemmas outcome_defs = returned_def raised_def calls_made_def history_after_def

lemmas example_defs = example_world_def empty_store_def default_config_def decision_def
  example_row_def example_message_def example_response_def example_document_def
  example_web_document_def hedging_world_def failing_llm_world_def bad_json_world_def
  partial_decision_world_def store_down_world_def small_config_def no_embedding_world_def
  mixed_world_def three_paragraph_world_def busy_store_def example_result_def
  example_session_def example_append_def example_turn_def listed_decision_def
  listed_world_def

section \<open>The session store: append, history, clear\<close>

lemma redis_range_all: "redis_range xs 0 (- 1) = xs"
  by (cases xs) (auto simp: redis_range_def Let_def)

lemma redis_range_prefix:
  "0 \<le> stop \<Longrightarrow> redis_range xs 0 stop = take (nat (stop + 1)) xs"
  by (cases xs) (auto simp: redis_range_def Let_def)

lemma history_read: "get_conversation_context True db uid = Inr (db (get_session_key uid))"
  by (simp add: get_conversation_context_def lrange_def redis_range_all)


text \<open>An append raises exactly when the store leaves one of its three commands unanswered.\<close>

lemma add_message_raises:
  "answers < 3 \<Longrightarrow> fst (add_message sm fmt now answers db uid q resp) = Some RedisError"
  by (simp add: add_message_def Let_def)

lemma add_message_returns:
  "3 \<le> answers \<Longrightarrow> fst (add_message sm fmt now answers db uid q resp) = None"
  by (simp add: add_message_def Let_def)

text \<open>
  With room for at least one message and a positive time-to-live, an append that
  returns puts the new message in front of the first \<open>max_messages - 1\<close> old ones.
\<close>

lemma add_message_up:
  assumes "1 \<le> max_messages sm" and "0 < sm_session_ttl sm" and "3 \<le> answers"
  shows "add_message sm fmt now answers db uid q resp =
         (None, db(get_session_key uid :=
                   \<lparr> timestamp = now, m_query = q, m_strategy_used = rd_strategy_used resp,
                     m_document_count = rd_document_count resp, m_reasoning = rd_reasoning resp,
                     key_points = extract_key_points fmt (rd_documents resp) \<rparr>
                   # take (nat (max_messages sm) - 1) (db (get_session_key uid))))"
proof -
  have "nat (max_messages sm) = Suc (nat (max_messages sm) - 1)"
    using assms(1) by simp
  then have "take (nat (max_messages sm)) (m # xs) = m # take (nat (max_messages sm) - 1) xs"
    for m :: message and xs
    by (metis take_Suc_Cons)
  then show ?thesis
    using assms
    by (simp add: add_message_def Let_def lpush_def ltrim_def expire_def redis_range_prefix)
qed



text \<open>
  With \<open>max_messages = 0\<close> the trim is \<open>LTRIM key 0 -1\<close>, which keeps the whole list.
\<close>

lemma add_message_head:
  assumes "0 \<le> max_messages sm" and "0 < sm_session_ttl sm" and "3 \<le> answers"
  shows "add_message sm fmt now answers db uid q resp =
         (None, db(get_session_key uid :=
                   \<lparr> timestamp = now, m_query = q, m_strategy_used = rd_strategy_used resp,
                     m_document_count = rd_document_count resp, m_reasoning = rd_reasoning resp,
                     key_points = extract_key_points fmt (rd_documents resp) \<rparr>
                   # (if max_messages sm = 0 then db (get_session_key uid)
                      else take (nat (max_messages sm) - 1) (db (get_session_key uid)))))"
proof (cases "max_messages sm = 0")
  case True
  with assms(2,3) show ?thesis
    by (simp add: add_message_def Let_def lpush_def ltrim_def expire_def redis_range_all)
next
  case False
  with assms(1) have "1 \<le> max_messages sm"
    by simp
  from add_message_up [OF this assms(2,3)] False show ?thesis
    by simp
qed







text \<open>
  C9. After a clear that completed, the history of that user is empty, and a second
  clear changes nothing: it returns the very store the first one left, whose history
  is (still) empty.
\<close>

theorem clear_then_history:
  assumes "clear_session up db uid = Inr db1"
  shows "get_conversation_context True db1 uid = Inr [] \<and> clear_session True db1 uid = Inr db1"
  using assms by (auto simp: clear_session_def history_read delete_def split: if_splits)

theorem clear_then_history_witness:
  "clear_session True (empty_store(''session:u'' := [example_message])) ''u'' = Inr empty_store
   \<and> get_conversation_context True empty_store ''u'' = Inr []
   \<and> clear_session True empty_store ''u'' = Inr empty_store"
proof -
  have h: "clear_session True (empty_store(''session:u'' := [example_message])) ''u'' = Inr empty_store"
    by (auto simp: clear_session_def delete_def get_session_key_def empty_store_def)
  from clear_then_history [OF h] h show ?thesis
    by simp
qed

section \<open>The retrieval backends: bounds and faults\<close>

lemma float_ge_not_lt: "float_ge a b \<Longrightarrow> \<not> float_lt a b"
  by (cases a; cases b) auto

lemma py_ge_True_lt: "py_ge v c = Inr True \<Longrightarrow> py_lt v c = Inr False"
  by (auto simp: py_ge_def py_lt_def float_ge_not_lt split: option.splits)

lemma filter_similarity_eq:
  "filter_similarity th docs = Inr out \<Longrightarrow>
   out = filter (\<lambda>d. py_ge (dict_get (metadata d) ''similarity'' (JInt 0)) th = Inr True) docs"
  by (induction docs arbitrary: out) (auto split: sum.splits)

lemma filter_similarity_length:
  "filter_similarity th docs = Inr out \<Longrightarrow> length out \<le> length docs"
  by (drule filter_similarity_eq) simp

lemma rows_documents_length: "rows_documents rs = Some docs \<Longrightarrow> length docs = length rs"
  by (induction rs arbitrary: docs) (auto split: option.splits)

lemma similarity_search_length:
  "0 \<le> k \<Longrightarrow> int (length (similarity_search w e k)) \<le> k"
  by (auto simp: similarity_search_def dest!: rows_documents_length split: option.splits)

lemma custom_length:
  assumes "0 \<le> max_docs cfg" and "custom_get_relevant_documents cfg w q = Inr docs"
  shows "int (length docs) \<le> max_docs cfg"
proof (cases "connection w")
  case False
  with assms show ?thesis by (simp add: custom_get_relevant_documents_def)
next
  case True
  with assms(2) obtain e where
    out: "filter_similarity (similarity_threshold cfg) (similarity_search w e (max_docs cfg)) = Inr docs"
    by (auto simp: custom_get_relevant_documents_def split: option.splits)
  from filter_similarity_length [OF out] similarity_search_length [OF assms(1), of w e]
  show ?thesis by linarith
qed

lemma py_slice_to_length: "0 \<le> n \<Longrightarrow> int (length (py_slice_to xs n)) \<le> n"
  by (simp add: py_slice_to_def)

lemma kept_results_length:
  "length (map f (filter P (enumerate 0 ys))) \<le> length ys"
  by (metis length_map length_enumerate length_filter_le)

lemma web_length:
  assumes "0 \<le> n"
  shows "int (length (web_get_relevant_documents w n q)) \<le> n"
proof (cases "search_tool_run w q")
  case None
  with assms show ?thesis by (simp add: web_get_relevant_documents_def)
next
  case (Some found)
  show ?thesis
  proof (cases "found = []")
    case True
    with Some assms show ?thesis by (simp add: web_get_relevant_documents_def)
  next
    case False
    have "int (length (map (web_document q)
            (filter (\<lambda>ir. strip_nonempty (snd ir))
               (enumerate 0 (py_slice_to (split_nn [] found) n)))))
          \<le> int (length (py_slice_to (split_nn [] found) n))"
      using kept_results_length by (simp only: of_nat_le_iff)
    also have "\<dots> \<le> n"
      by (rule py_slice_to_length [OF assms])
    finally show ?thesis
      using Some False by (simp add: web_get_relevant_documents_def Let_def)
  qed
qed

lemma custom_disconnected: "\<not> connection w \<Longrightarrow> custom_get_relevant_documents cfg w q = Inr []"
  by (simp add: custom_get_relevant_documents_def)

lemma custom_query_fault:
  "embed_query w q = Some e \<Longrightarrow> pg_select w e = None \<Longrightarrow>
   custom_get_relevant_documents cfg w q = Inr []"
  by (simp add: custom_get_relevant_documents_def similarity_search_def)

lemma web_fault: "search_tool_run w q = None \<Longrightarrow> web_get_relevant_documents w n q = []"
  by (simp add: web_get_relevant_documents_def)

text \<open>
  The similarity of a document is the \<open>similarity\<close> entry of its metadata: the score
  the query computed, unless the stored metadata of the row has a \<open>similarity\<close> key of
  its own.
\<close>

lemma row_document_similarity:
  assumes "row_document r = Some doc"
    and "case row_metadata r of Metadata m \<Rightarrow> map_of m ''similarity'' = None | _ \<Rightarrow> True"
  shows "dict_get (metadata doc) ''similarity'' (JInt 0) = similarity r"
  using assms
  by (auto simp: row_document_def dict_get_def map_add_def
      split: metadata_col.splits option.splits)

text \<open>
  C7. Whenever the indexed backend returns, every document it returns has a similarity
  that is a number at least the configured threshold, so none with a similarity
  strictly below the threshold is among them.
\<close>

theorem indexed_results_meet_threshold:
  assumes "custom_get_relevant_documents cfg w q = Inr docs" and "doc \<in> set docs"
  shows "py_ge (dict_get (metadata doc) ''similarity'' (JInt 0)) (similarity_threshold cfg) = Inr True
       \<and> py_lt (dict_get (metadata doc) ''similarity'' (JInt 0)) (similarity_threshold cfg) = Inr False"
proof (cases "connection w")
  case False
  with assms show ?thesis by (simp add: custom_get_relevant_documents_def)
next
  case True
  with assms(1) obtain e where
    out: "filter_similarity (similarity_threshold cfg) (similarity_search w e (max_docs cfg)) = Inr docs"
    by (auto simp: custom_get_relevant_documents_def split: option.splits)
  from filter_similarity_eq [OF out] assms(2)
  have "py_ge (dict_get (metadata doc) ''similarity'' (JInt 0)) (similarity_threshold cfg) = Inr True"
    by simp
  then show ?thesis by (simp add: py_ge_True_lt)
qed

theorem indexed_results_meet_threshold_witness:
  "custom_get_relevant_documents default_config mixed_world ''q''
     = Inr [example_document ''one'' (15 / 16), example_document ''three'' (3 / 4)]
   \<and> example_document ''three'' (3 / 4)
       \<in> set [example_document ''one'' (15 / 16), example_document ''three'' (3 / 4)]
   \<and> py_ge (dict_get (metadata (example_document ''three'' (3 / 4))) ''similarity'' (JInt 0))
        (similarity_threshold default_config) = Inr True
   \<and> py_lt (dict_get (metadata (example_document ''three'' (3 / 4))) ''similarity'' (JInt 0))
        (similarity_threshold default_config) = Inr False"
proof -
  have h1: "custom_get_relevant_documents default_config mixed_world ''q''
            = Inr [example_document ''one'' (15 / 16), example_document ''three'' (3 / 4)]"
    by (simp add: run_defs example_defs)
  have h2: "example_document ''three'' (3 / 4)
            \<in> set [example_document ''one'' (15 / 16), example_document ''three'' (3 / 4)]"
    by simp
  from indexed_results_meet_threshold [OF h1 h2] h1 h2 show ?thesis
    by simp
qed

text \<open>
  C5. The index is connected and the embedding provider raises on the query: the
  indexed backend does not return an empty list, the fault leaves
  \<open>_get_relevant_documents\<close> and ends the whole run. (The other faults are absorbed:
  \<open>custom_disconnected\<close>, \<open>custom_query_fault\<close>, \<open>web_fault\<close>.)
\<close>

theorem embedding_fault_propagates:
  "custom_get_relevant_documents default_config no_embedding_world ''q'' = Inl EmbeddingError
   \<and> retrieve default_config no_embedding_world empty_store ''q'' (Some ''u'')
       = Inl (EmbeddingError, empty_store)"
  by (simp add: run_defs outcome_defs example_defs)

section \<open>The orchestrator: the paths of a run\<close>

lemma update_down:
  "\<not> redis_up_write w \<Longrightarrow> \<exists>db1. update_session_memory cfg w r = Inl (RedisError, db1)"
  by (simp add: update_session_memory_def redis_up_write_def add_message_def Let_def)

lemma update_up:
  assumes "redis_up_write w"
  shows "update_session_memory cfg w r =
         Inr (r\<lparr> store := snd (add_message (session_memory cfg) (str_of w) (now_iso w)
                                  (redis_write_answers w) (store r) (user_id (st r))
                                  (query (st r))
                                  \<lparr> rd_strategy_used = search_type (st r),
                                    rd_document_count = length (documents (st r)),
                                    rd_reasoning = reasoning (st r),
                                    rd_documents = documents (st r) \<rparr>),
                  calls := calls r @ [HistoryWrite (user_id (st r))] \<rparr>)"
proof -
  let ?written = "add_message (session_memory cfg) (str_of w) (now_iso w)
                    (redis_write_answers w) (store r) (user_id (st r)) (query (st r))
                    \<lparr> rd_strategy_used = search_type (st r),
                      rd_document_count = length (documents (st r)),
                      rd_reasoning = reasoning (st r),
                      rd_documents = documents (st r) \<rparr>"
  from assms have "3 \<le> redis_write_answers w"
    by (simp add: redis_up_write_def)
  then have none: "fst ?written = None"
    by (rule add_message_returns)
  obtain e db1 where written: "?written = (e, db1)"
    by (cases ?written)
  with none have "e = None"
    by simp
  with written show ?thesis
    by (simp add: update_session_memory_def Let_def)
qed

lemma update_state: "update_session_memory cfg w r = Inr r1 \<Longrightarrow> st r1 = st r"
  by (auto simp: update_session_memory_def Let_def split: prod.splits option.splits)

lemma update_returns_up: "update_session_memory cfg w r = Inr r1 \<Longrightarrow> redis_up_write w"
proof (rule ccontr)
  assume "update_session_memory cfg w r = Inr r1" and "\<not> redis_up_write w"
  with update_down [of w cfg r] show False by auto
qed

lemma analyze_fallback:
  assumes "redis_up_read w"
    and "llm_invoke w (query (st r))
           (summarize_conversation (str_of w) (store r (get_session_key (user_id (st r)))))
         = Response JSONDecodeError"
  shows "analyze_with_context w r =
         Inr (r\<lparr> st := (st r)\<lparr> search_type := JStr ''custom'',
                                confidence := JFloat (Fin (1 / 2)),
                                reasoning := JStr ''Default fallback to custom search'',
                                context_used := JBool False,
                                conversation_history := [] \<rparr>,
                  calls := calls r @ [HistoryRead (user_id (st r)),
                             Classify (query (st r))
                               (summarize_conversation (str_of w)
                                  (store r (get_session_key (user_id (st r)))))] \<rparr>)"
  using assms by (simp add: analyze_with_context_def history_read Let_def)

lemma analyze_decision:
  assumes "redis_up_read w"
    and "llm_invoke w (query (st r))
           (summarize_conversation (str_of w) (store r (get_session_key (user_id (st r)))))
         = Response (Loaded (JObj d))"
    and "map_of d ''strategy'' = Some strategy"
    and "map_of d ''confidence'' = Some conf"
    and "map_of d ''reasoning'' = Some reason"
  shows "analyze_with_context w r =
         Inr (r\<lparr> st := (st r)\<lparr> search_type := strategy,
                                confidence := conf,
                                reasoning := reason,
                                context_used := dict_get d ''context_used'' (JBool False),
                                conversation_history := store r (get_session_key (user_id (st r))) \<rparr>,
                  calls := calls r @ [HistoryRead (user_id (st r)),
                             Classify (query (st r))
                               (summarize_conversation (str_of w)
                                  (store r (get_session_key (user_id (st r)))))] \<rparr>)"
  using assms by (simp add: analyze_with_context_def history_read Let_def dict_item_def)

lemma fallback_is_low: "py_lt (JFloat (Fin (1 / 2))) low_confidence_bound = Inr True"
  by (simp add: py_lt_def low_confidence_bound_def)

lemma analyze_keeps:
  "analyze_with_context w r = Inr r1 \<Longrightarrow>
   documents (st r1) = documents (st r) \<and> store r1 = store r
   \<and> query (st r1) = query (st r) \<and> user_id (st r1) = user_id (st r)
   \<and> calls r1 = calls r @ [HistoryRead (user_id (st r)),
                    Classify (query (st r))
                      (summarize_conversation (str_of w)
                         (store r (get_session_key (user_id (st r)))))]"
  by (auto simp: analyze_with_context_def Let_def get_conversation_context_def lrange_def
      redis_range_all
      split: sum.splits llm_reply.splits loads.splits json.splits if_splits)

text \<open>The routes of the conditional edge.\<close>

lemma destinations_custom: "destinations (path_results (JStr ''custom'')) = Inr [CustomRetrieve]"
  and destinations_web: "destinations (path_results (JStr ''web'')) = Inr [WebRetrieve]"
  and destinations_both: "destinations (path_results (JStr ''both'')) = Inr [Combine]"
  by (simp_all add: path_results_def)

lemma destinations_none: "destinations rs = Inr [] \<Longrightarrow> rs = []"
  by (cases rs) (auto split: sum.splits)

lemma path_results_none: "path_results route = [] \<Longrightarrow> route = JArr []"
  by (cases route) (simp_all add: path_results_def)

text \<open>Leaving \<open>user_id\<close> out is calling as \<open>default_user\<close>.\<close>

lemma retrieve_default_user:
  "retrieve cfg w db q None = retrieve cfg w db q (Some ''default_user'')"
  by (simp add: retrieve_def)

text \<open>
  The paths of a run, one lemma each: what \<open>retrieve\<close> returns, the store it leaves and
  the calls it made, when the session store is reachable.
\<close>

lemma retrieve_fallback:
  assumes "redis_up_read w" and "redis_up_write w"
    and "uid = (case user_id_arg of None \<Rightarrow> ''default_user'' | Some u \<Rightarrow> u)"
    and "llm_invoke w q (summarize_conversation (str_of w) (db (get_session_key uid)))
         = Response JSONDecodeError"
  shows "retrieve cfg w db q user_id_arg =
         Inr (\<lparr> r_query = q, r_user_id = uid, r_documents = [],
                strategy_used = JStr ''custom'',
                r_confidence = JFloat (Fin (1 / 2)),
                r_reasoning = JStr ''Default fallback to custom search'',
                r_context_used = JBool False,
                document_count = 0, conversation_length = 0 \<rparr>,
              snd (add_message (session_memory cfg) (str_of w) (now_iso w)
                     (redis_write_answers w) db uid q
                     \<lparr> rd_strategy_used = JStr ''custom'', rd_document_count = 0,
                       rd_reasoning = JStr ''Default fallback to custom search'',
                       rd_documents = [] \<rparr>),
              [HistoryRead uid,
               Classify q (summarize_conversation (str_of w) (db (get_session_key uid))),
               HistoryWrite uid])"
  using assms
  by (simp add: retrieve_def Let_def graph_invoke_def analyze_fallback route_decision_def
      fallback_is_low combine_results_def update_up
      destinations_custom destinations_web destinations_both)

lemma retrieve_web:
  assumes "redis_up_read w" and "redis_up_write w"
    and "uid = (case user_id_arg of None \<Rightarrow> ''default_user'' | Some u \<Rightarrow> u)"
    and "llm_invoke w q (summarize_conversation (str_of w) (db (get_session_key uid)))
         = Response (Loaded (JObj d))"
    and "map_of d ''strategy'' = Some (JStr ''web'')"
    and "map_of d ''confidence'' = Some conf"
    and "map_of d ''reasoning'' = Some reason"
    and "py_lt conf low_confidence_bound = Inr False"
    and "docs = web_get_relevant_documents w (web_search_max_results cfg) q"
  shows "retrieve cfg w db q user_id_arg =
         Inr (\<lparr> r_query = q, r_user_id = uid, r_documents = docs,
                strategy_used = JStr ''web'',
                r_confidence = conf,
                r_reasoning = reason,
                r_context_used = dict_get d ''context_used'' (JBool False),
                document_count = length docs,
                conversation_length = length (db (get_session_key uid)) \<rparr>,
              snd (add_message (session_memory cfg) (str_of w) (now_iso w)
                     (redis_write_answers w) db uid q
                     \<lparr> rd_strategy_used = JStr ''web'', rd_document_count = length docs,
                       rd_reasoning = reason, rd_documents = docs \<rparr>),
              [HistoryRead uid,
               Classify q (summarize_conversation (str_of w) (db (get_session_key uid))),
               WebSearch q,
               HistoryWrite uid])"
  using assms
  by (simp add: retrieve_def Let_def graph_invoke_def analyze_decision route_decision_def
      web_retrieve_def combine_results_def update_up
      destinations_custom destinations_web destinations_both)

lemma retrieve_custom:
  assumes "redis_up_read w" and "redis_up_write w"
    and "uid = (case user_id_arg of None \<Rightarrow> ''default_user'' | Some u \<Rightarrow> u)"
    and "llm_invoke w q (summarize_conversation (str_of w) (db (get_session_key uid)))
         = Response (Loaded (JObj d))"
    and "map_of d ''strategy'' = Some (JStr ''custom'')"
    and "map_of d ''confidence'' = Some conf"
    and "map_of d ''reasoning'' = Some reason"
    and "py_lt conf low_confidence_bound = Inr False"
    and "custom_get_relevant_documents cfg w q = Inr docs"
  shows "retrieve cfg w db q user_id_arg =
         Inr (\<lparr> r_query = q, r_user_id = uid, r_documents = docs,
                strategy_used = JStr ''custom'',
                r_confidence = conf,
                r_reasoning = reason,
                r_context_used = dict_get d ''context_used'' (JBool False),
                document_count = length docs,
                conversation_length = length (db (get_session_key uid)) \<rparr>,
              snd (add_message (session_memory cfg) (str_of w) (now_iso w)
                     (redis_write_answers w) db uid q
                     \<lparr> rd_strategy_used = JStr ''custom'', rd_document_count = length docs,
                       rd_reasoning = reason, rd_documents = docs \<rparr>),
              [HistoryRead uid,
               Classify q (summarize_conversation (str_of w) (db (get_session_key uid))),
               IndexedSearch q,
               HistoryWrite uid])"
  using assms
  by (simp add: retrieve_def Let_def graph_invoke_def analyze_decision route_decision_def
      custom_retrieve_def combine_results_def update_up
      destinations_custom destinations_web destinations_both)

lemma retrieve_both:
  assumes "redis_up_read w" and "redis_up_write w"
    and "uid = (case user_id_arg of None \<Rightarrow> ''default_user'' | Some u \<Rightarrow> u)"
    and "llm_invoke w q (summarize_conversation (str_of w) (db (get_session_key uid)))
         = Response (Loaded (JObj d))"
    and "map_of d ''strategy'' = Some (JStr ''both'')"
    and "map_of d ''confidence'' = Some conf"
    and "map_of d ''reasoning'' = Some reason"
    and "py_lt conf low_confidence_bound = Inr low"
    and "custom_get_relevant_documents cfg w q = Inr custom_docs"
    and "docs = py_slice_to
                  (custom_docs @ web_get_relevant_documents w (web_search_max_results cfg) q)
                  (max_docs cfg)"
  shows "retrieve cfg w db q user_id_arg =
         Inr (\<lparr> r_query = q, r_user_id = uid, r_documents = docs,
                strategy_used = JStr ''both'',
                r_confidence = conf,
                r_reasoning = reason,
                r_context_used = dict_get d ''context_used'' (JBool False),
                document_count = length docs,
                conversation_length = length (db (get_session_key uid)) \<rparr>,
              snd (add_message (session_memory cfg) (str_of w) (now_iso w)
                     (redis_write_answers w) db uid q
                     \<lparr> rd_strategy_used = JStr ''both'', rd_document_count = length docs,
                       rd_reasoning = reason, rd_documents = docs \<rparr>),
              [HistoryRead uid,
               Classify q (summarize_conversation (str_of w) (db (get_session_key uid))),
               IndexedSearch q, WebSearch q,
               HistoryWrite uid])"
  using assms
  by (simp add: retrieve_def Let_def graph_invoke_def analyze_decision route_decision_def
      combine_results_def update_up
      destinations_custom destinations_web destinations_both)

lemma retrieve_low_confidence:
  assumes "redis_up_read w" and "redis_up_write w"
    and "uid = (case user_id_arg of None \<Rightarrow> ''default_user'' | Some u \<Rightarrow> u)"
    and "llm_invoke w q (summarize_conversation (str_of w) (db (get_session_key uid)))
         = Response (Loaded (JObj d))"
    and "map_of d ''strategy'' = Some strategy"
    and "strategy \<noteq> JStr ''both''"
    and "map_of d ''confidence'' = Some conf"
    and "map_of d ''reasoning'' = Some reason"
    and "py_lt conf low_confidence_bound = Inr True"
  shows "retrieve cfg w db q user_id_arg =
         Inr (\<lparr> r_query = q, r_user_id = uid, r_documents = [],
                strategy_used = strategy,
                r_confidence = conf,
                r_reasoning = reason,
                r_context_used = dict_get d ''context_used'' (JBool False),
                document_count = 0,
                conversation_length = length (db (get_session_key uid)) \<rparr>,
              snd (add_message (session_memory cfg) (str_of w) (now_iso w)
                     (redis_write_answers w) db uid q
                     \<lparr> rd_strategy_used = strategy, rd_document_count = 0,
                       rd_reasoning = reason, rd_documents = [] \<rparr>),
              [HistoryRead uid,
               Classify q (summarize_conversation (str_of w) (db (get_session_key uid))),
               HistoryWrite uid])"
  using assms
  by (simp add: retrieve_def Let_def graph_invoke_def analyze_decision route_decision_def
      combine_results_def update_up
      destinations_custom destinations_web destinations_both)

text \<open>
  A run that returns either ended after \<open>analyze_context\<close>, the route being the empty
  list, or went through one retrieval path, \<open>combine\<close> and \<open>update_memory\<close>.
\<close>

lemma graph_invoke_returns:
  assumes "graph_invoke cfg w r0 = Inr r"
  shows "(analyze_with_context w r0 = Inr r \<and> route_decision (st r) = Inr (JArr []))
       \<or> (\<exists>r1 r2 r3. analyze_with_context w r0 = Inr r1
              \<and> (custom_retrieve cfg w r1 = Inr r2 \<or> web_retrieve cfg w r1 = Inr r2 \<or> r2 = r1)
              \<and> combine_results cfg w r2 = Inr r3
              \<and> update_session_memory cfg w r3 = Inr r)"
proof -
  from assms obtain r1 route dests where
    a: "analyze_with_context w r0 = Inr r1" and
    rt: "route_decision (st r1) = Inr route" and
    ds: "destinations (path_results route) = Inr dests" and
    rest: "(case remdups dests of
              [] \<Rightarrow> Inr r1
            | [dest] \<Rightarrow>
                (case (case dest of
                         CustomRetrieve \<Rightarrow> custom_retrieve cfg w r1
                       | WebRetrieve \<Rightarrow> web_retrieve cfg w r1
                       | Combine \<Rightarrow> Inr r1) of
                   Inl e \<Rightarrow> Inl (e, store r0)
                 | Inr r2 \<Rightarrow>
                (case combine_results cfg w r2 of
                   Inl e \<Rightarrow> Inl (e, store r0)
                 | Inr r3 \<Rightarrow> update_session_memory cfg w r3))
            | dest # dest' # others \<Rightarrow>
                (if CustomRetrieve \<in> set dests
                 then (case custom_retrieve cfg w r1 of
                         Inl e \<Rightarrow> Inl (e, store r0)
                       | Inr r2 \<Rightarrow> Inl (InvalidUpdateError, store r0))
                 else Inl (InvalidUpdateError, store r0))) = Inr r"
    by (auto simp: graph_invoke_def split: sum.splits)
  show ?thesis
  proof (cases "remdups dests")
    case Nil
    then have "dests = []" by simp
    with ds have "route = JArr []"
      by (simp add: destinations_none path_results_none)
    with Nil rest a rt show ?thesis by simp
  next
    case (Cons dest more_dests)
    show ?thesis
    proof (cases more_dests)
      case Nil
      with Cons rest obtain r2 r3 where
        "(case dest of
            CustomRetrieve \<Rightarrow> custom_retrieve cfg w r1
          | WebRetrieve \<Rightarrow> web_retrieve cfg w r1
          | Combine \<Rightarrow> Inr r1) = Inr r2"
        and c: "combine_results cfg w r2 = Inr r3"
        and u: "update_session_memory cfg w r3 = Inr r"
        by (auto split: sum.splits)
      then have "custom_retrieve cfg w r1 = Inr r2 \<or> web_retrieve cfg w r1 = Inr r2 \<or> r2 = r1"
        by (cases dest) auto
      with a c u show ?thesis by blast
    next
      case (Cons dest' others)
      with \<open>remdups dests = dest # more_dests\<close> rest show ?thesis
        by (auto split: sum.splits if_splits)
    qed
  qed
qed

lemma custom_retrieve_bound:
  assumes "0 \<le> max_docs cfg" and "custom_retrieve cfg w r = Inr r1"
  shows "int (length (documents (st r1))) \<le> max_docs cfg"
  using assms
  by (auto simp: custom_retrieve_def Let_def custom_length split: sum.splits)

lemma web_retrieve_bound:
  assumes "0 \<le> web_search_max_results cfg" and "web_retrieve cfg w r = Inr r1"
  shows "int (length (documents (st r1))) \<le> web_search_max_results cfg"
  using assms web_length [of "web_search_max_results cfg" w "query (st r)"]
  by (auto simp: web_retrieve_def Let_def)

lemma combine_bound:
  assumes "0 \<le> max_docs cfg" and "int (length (documents (st r))) \<le> max_docs cfg"
    and "combine_results cfg w r = Inr r1"
  shows "int (length (documents (st r1))) \<le> max_docs cfg"
  using assms
  by (auto simp: combine_results_def Let_def py_slice_to_length split: sum.splits if_splits)

lemma graph_documents_bound:
  assumes wsmr: "0 \<le> web_search_max_results cfg" "web_search_max_results cfg \<le> max_docs cfg"
    and empty: "documents (st r0) = []"
    and run: "graph_invoke cfg w r0 = Inr r"
  shows "int (length (documents (st r))) \<le> max_docs cfg"
proof -
  from wsmr have md: "0 \<le> max_docs cfg" by simp
  from graph_invoke_returns [OF run] show ?thesis
  proof
    assume "analyze_with_context w r0 = Inr r \<and> route_decision (st r) = Inr (JArr [])"
    with analyze_keeps [of w r0 r] empty md show ?thesis by simp
  next
    assume "\<exists>r1 r2 r3. analyze_with_context w r0 = Inr r1
              \<and> (custom_retrieve cfg w r1 = Inr r2 \<or> web_retrieve cfg w r1 = Inr r2 \<or> r2 = r1)
              \<and> combine_results cfg w r2 = Inr r3
              \<and> update_session_memory cfg w r3 = Inr r"
    then obtain r1 r2 r3 where
      a: "analyze_with_context w r0 = Inr r1" and
      d: "custom_retrieve cfg w r1 = Inr r2 \<or> web_retrieve cfg w r1 = Inr r2 \<or> r2 = r1" and
      c: "combine_results cfg w r2 = Inr r3" and
      u: "update_session_memory cfg w r3 = Inr r"
      by blast
    from analyze_keeps [OF a] empty have e1: "documents (st r1) = []" by simp
    from d have b2: "int (length (documents (st r2))) \<le> max_docs cfg"
    proof (elim disjE)
      assume "custom_retrieve cfg w r1 = Inr r2"
      from custom_retrieve_bound [OF md this] show ?thesis .
    next
      assume "web_retrieve cfg w r1 = Inr r2"
      from web_retrieve_bound [OF wsmr(1) this] wsmr(2) show ?thesis by simp
    next
      assume "r2 = r1"
      with e1 md show ?thesis by simp
    qed
    from combine_bound [OF md b2 c] update_state [OF u] show ?thesis by simp
  qed
qed

text \<open>
  The routes that are lists, with the session store down at the write: the empty list
  ends the run after \<open>analyze_context\<close>, with a result and no write; one route named
  twice is one route; two different routes end the run with the engine's exception.
\<close>

lemma list_routes:
  "retrieve default_config ((listed_world [])\<lparr> redis_write_answers := 0 \<rparr>) empty_store
     ''q'' (Some ''u'')
   = Inr (\<lparr> r_query = ''q'', r_user_id = ''u'', r_documents = [],
            strategy_used = JArr [],
            r_confidence = JFloat (Fin (8106479329266893 / 9007199254740992)),
            r_reasoning = JStr ''because'', r_context_used = JBool False,
            document_count = 0, conversation_length = 0 \<rparr>,
          empty_store,
          [HistoryRead ''u'', Classify ''q'' ''No previous conversation.''])"
  "map_option r_documents
     (returned (retrieve default_config (listed_world [JStr ''web'', JStr ''web'']) empty_store
                  ''q'' (Some ''u'')))
   = Some [example_web_document ''alpha'' 1 ''q'', example_web_document ''beta'' 2 ''q'']"
  "raised (retrieve default_config (listed_world [JStr ''custom'', JStr ''web'']) empty_store
             ''q'' (Some ''u''))
   = Some InvalidUpdateError"
  "raised (retrieve default_config (listed_world [JStr ''web'', JStr ''indexed'']) empty_store
             ''q'' (Some ''u''))
   = Some KeyError"
  by (simp_all add: run_defs outcome_defs example_defs)

text \<open>
  C4 (as amended). In every result, \<open>document_count\<close> is the length of \<open>documents\<close>;
  and when \<open>0 \<le> web_search_max_results \<le> max_docs\<close>, that length is at most
  \<open>max_docs\<close> on every path. (The web-only path is capped by
  \<open>web_search_max_results\<close>, and nothing truncates it to \<open>max_docs\<close>.)
\<close>

theorem document_count_bound:
  assumes "returned (retrieve cfg w db q user_id_arg) = Some res"
  shows "document_count res = length (r_documents res)
       \<and> (0 \<le> web_search_max_results cfg \<and> web_search_max_results cfg \<le> max_docs cfg
            \<longrightarrow> int (length (r_documents res)) \<le> max_docs cfg)"
proof -
  from assms obtain final where
    run: "graph_invoke cfg w
            \<lparr> st = \<lparr> query = q,
                     user_id = (case user_id_arg of None \<Rightarrow> ''default_user'' | Some u \<Rightarrow> u),
                     documents = [], search_type = JStr [], confidence = JFloat (Fin 0),
                     reasoning = JStr [], context_used = JBool False,
                     conversation_history = [] \<rparr>,
              store = db, calls = [] \<rparr> = Inr final"
    and res: "r_documents res = documents (st final)"
             "document_count res = length (documents (st final))"
    by (auto simp: returned_def retrieve_def Let_def split: sum.splits)
  have "int (length (documents (st final))) \<le> max_docs cfg"
    if "0 \<le> web_search_max_results cfg" and "web_search_max_results cfg \<le> max_docs cfg"
    using graph_documents_bound [OF that _ run] by simp
  with res show ?thesis by simp
qed

theorem document_count_bound_witness:
  "returned (retrieve default_config (listed_world [JStr ''web'']) empty_store ''q'' (Some ''u''))
     = Some (example_result\<lparr> strategy_used := JArr [JStr ''web''] \<rparr>)
   \<and> 0 \<le> web_search_max_results default_config
   \<and> web_search_max_results default_config \<le> max_docs default_config
   \<and> document_count (example_result\<lparr> strategy_used := JArr [JStr ''web''] \<rparr>)
       = length (r_documents (example_result\<lparr> strategy_used := JArr [JStr ''web''] \<rparr>))
   \<and> int (length (r_documents (example_result\<lparr> strategy_used := JArr [JStr ''web''] \<rparr>)))
       \<le> max_docs default_config"
proof -
  have h1: "0 \<le> web_search_max_results default_config"
    and h2: "web_search_max_results default_config \<le> max_docs default_config"
    by (simp_all add: default_config_def)
  have h3: "returned (retrieve default_config (listed_world [JStr ''web'']) empty_store ''q''
                        (Some ''u''))
            = Some (example_result\<lparr> strategy_used := JArr [JStr ''web''] \<rparr>)"
    by (simp add: run_defs outcome_defs example_defs)
  from document_count_bound [OF h3] h1 h2 h3 show ?thesis
    by simp
qed

text \<open>
  C4 as stated fails on the web-only path: with \<open>max_docs = 2\<close> and
  \<open>web_search_max_results = 3\<close>, three web documents are returned; and with
  \<open>max_docs = 1\<close> and \<open>web_search_max_results = -1\<close> the slice drops the last of the
  three paragraphs only, and two are returned.
\<close>

theorem document_count_bound_counterexample:
  "map_option r_documents
     (returned (retrieve small_config three_paragraph_world empty_store ''q'' (Some ''u'')))
     = Some [example_web_document ''alpha'' 1 ''q'', example_web_document ''beta'' 2 ''q'',
             example_web_document ''gamma'' 3 ''q'']
   \<and> map_option document_count
     (returned (retrieve small_config three_paragraph_world empty_store ''q'' (Some ''u'')))
     = Some 3
   \<and> max_docs small_config = 2
   \<and> map_option document_count
     (returned (retrieve (default_config\<lparr> max_docs := 1, web_search_max_results := - 1 \<rparr>)
                  three_paragraph_world empty_store ''q'' (Some ''u'')))
     = Some 2"
  by (simp add: run_defs outcome_defs example_defs)

text \<open>
  C3 (as amended). When the session store does not answer the write of the turn, the
  write is not dropped: \<open>retrieve\<close> returns no result, it ends with an exception. The
  one run that returns has no \<open>update_memory\<close> step at all: the classifier named the
  empty list of strategies, so no node followed \<open>analyze_context\<close>, and nothing was
  written.
\<close>

theorem failed_write_propagates:
  assumes "\<not> redis_up_write w"
  shows "(\<exists>e db1. retrieve cfg w db q user_id_arg = Inl (e, db1))
       \<or> (\<exists>res. retrieve cfg w db q user_id_arg
                  = Inr (res, db,
                         [HistoryRead (r_user_id res),
                          Classify q (summarize_conversation (str_of w)
                                        (db (get_session_key (r_user_id res))))])
                \<and> strategy_used res = JArr [])"
proof (cases "retrieve cfg w db q user_id_arg")
  case (Inl failure)
  then show ?thesis by (cases failure) simp
next
  case (Inr success)
  let ?uid = "case user_id_arg of None \<Rightarrow> ''default_user'' | Some u \<Rightarrow> u"
  let ?r0 = "\<lparr> st = \<lparr> query = q, user_id = ?uid,
                     documents = [], search_type = JStr [], confidence = JFloat (Fin 0),
                     reasoning = JStr [], context_used = JBool False,
                     conversation_history = [] \<rparr>,
              store = db, calls = [] \<rparr>"
  from Inr obtain final where
    run: "graph_invoke cfg w ?r0 = Inr final"
    and success: "success =
           (\<lparr> r_query = q, r_user_id = ?uid,
              r_documents = documents (st final),
              strategy_used = search_type (st final),
              r_confidence = confidence (st final),
              r_reasoning = reasoning (st final),
              r_context_used = context_used (st final),
              document_count = length (documents (st final)),
              conversation_length = length (conversation_history (st final)) \<rparr>,
            store final, calls final)"
    by (auto simp: retrieve_def Let_def split: sum.splits)
  from graph_invoke_returns [OF run] update_returns_up assms
  have ended: "analyze_with_context w ?r0 = Inr final"
    and route: "route_decision (st final) = Inr (JArr [])"
    by blast+
  from route have "search_type (st final) = JArr []"
    by (auto simp: route_decision_def Let_def split: sum.splits if_splits)
  with analyze_keeps [OF ended] Inr success show ?thesis
    by simp
qed

theorem failed_write_propagates_witness:
  "\<not> redis_up_write store_down_world
   \<and> ((\<exists>e db1. retrieve default_config store_down_world busy_store ''q'' (Some ''u'')
                  = Inl (e, db1))
      \<or> (\<exists>res. retrieve default_config store_down_world busy_store ''q'' (Some ''u'')
                  = Inr (res, busy_store,
                         [HistoryRead (r_user_id res),
                          Classify ''q'' (summarize_conversation (str_of store_down_world)
                                           (busy_store (get_session_key (r_user_id res))))])
                \<and> strategy_used res = JArr []))
   \<and> raised (retrieve default_config store_down_world busy_store ''q'' (Some ''u''))
       = Some RedisError"
proof -
  have h: "\<not> redis_up_write store_down_world"
    by (simp add: store_down_world_def example_world_def redis_up_write_def)
  have r: "raised (retrieve default_config store_down_world busy_store ''q'' (Some ''u''))
           = Some RedisError"
    by (simp add: run_defs outcome_defs example_defs)
  from failed_write_propagates
         [OF h, where cfg = default_config and db = busy_store and q = "''q''"
            and user_id_arg = "Some ''u''"]
       h r
  show ?thesis
    by (intro conjI)
qed

text \<open>
  C3 as stated fails: everything works but the session write, and the caller gets the
  store's exception instead of a result.
\<close>

theorem failed_write_counterexample:
  "retrieve default_config store_down_world empty_store ''q'' (Some ''u'')
   = Inl (RedisError, empty_store)"
  by (simp add: run_defs outcome_defs example_defs)

text \<open>
  C1. The classifier names \<open>custom\<close> with confidence 0.4; the index would give three
  documents and the web search two, and \<open>max_docs\<close> is 5. The route is \<open>both\<close>, which
  leads to \<open>combine\<close>; but \<open>combine\<close> tests the classified strategy, which is
  \<open>custom\<close>, so neither backend is called and the result has no documents.
  (\<open>retrieve_low_confidence\<close> is the general statement; with confidence at least 0.6,
  \<open>retrieve_custom\<close> and \<open>retrieve_web\<close> give the single backend's documents.)
\<close>

theorem low_confidence_retrieves_nothing:
  "custom_get_relevant_documents default_config hedging_world ''q''
     = Inr [example_document ''one'' (15 / 16), example_document ''two'' (7 / 8),
            example_document ''three'' (3 / 4)]
   \<and> web_get_relevant_documents hedging_world (web_search_max_results default_config) ''q''
     = [example_web_document ''alpha'' 1 ''q'', example_web_document ''beta'' 2 ''q'']
   \<and> max_docs default_config = 5
   \<and> returned (retrieve default_config hedging_world empty_store ''q'' (Some ''u''))
     = Some \<lparr> r_query = ''q'', r_user_id = ''u'', r_documents = [],
              strategy_used = JStr ''custom'',
              r_confidence = JFloat (Fin (3602879701896397 / 9007199254740992)),
              r_reasoning = JStr ''because'', r_context_used = JBool False,
              document_count = 0, conversation_length = 0 \<rparr>
   \<and> calls_made (retrieve default_config hedging_world empty_store ''q'' (Some ''u''))
     = Some [HistoryRead ''u'', Classify ''q'' ''No previous conversation.'', HistoryWrite ''u'']"
  by (simp add: run_defs outcome_defs example_defs)

text \<open>
  C2 (as amended). When the classifier's output fails JSON parsing and the session store
  is reachable, the decision is the fallback \<open>custom\<close> (the indexed backend), 0.5,
  \<open>"Default fallback to custom search"\<close>, \<open>False\<close>, and the turn completes: a result
  with that decision is returned. When moreover \<open>max_session_messages\<close> is not negative
  and \<open>session_ttl\<close> is positive, the turn is recorded at the head of the user's
  history, before the first \<open>max_session_messages - 1\<close> of the records that were there
  (before all of them when \<open>max_session_messages\<close> is 0).
\<close>

theorem json_failure_uses_fallback:
  assumes "redis_up_read w" and "redis_up_write w"
    and "llm_invoke w q (summarize_conversation (str_of w) (db (get_session_key uid)))
         = Response JSONDecodeError"
  shows "(\<exists>res. returned (retrieve cfg w db q (Some uid)) = Some res
            \<and> r_query res = q \<and> r_user_id res = uid
            \<and> strategy_used res = JStr ''custom''
            \<and> r_confidence res = JFloat (Fin (1 / 2))
            \<and> r_reasoning res = JStr ''Default fallback to custom search''
            \<and> r_context_used res = JBool False)
       \<and> (0 \<le> max_session_messages cfg \<and> 0 < session_ttl cfg \<longrightarrow>
            (\<exists>m. history_after (retrieve cfg w db q (Some uid)) uid
                   = Some (m # (if max_session_messages cfg = 0 then db (get_session_key uid)
                                else take (nat (max_session_messages cfg) - 1)
                                       (db (get_session_key uid))))
               \<and> timestamp m = now_iso w \<and> m_query m = q
               \<and> m_strategy_used m = JStr ''custom''
               \<and> m_reasoning m = JStr ''Default fallback to custom search''))"
proof -
  note run = retrieve_fallback
      [where user_id_arg = "Some uid" and cfg = cfg and w = w and db = db and q = q
         and uid = uid, OF assms(1,2) _ assms(3)]
  from run have decided: "\<exists>res. returned (retrieve cfg w db q (Some uid)) = Some res
            \<and> r_query res = q \<and> r_user_id res = uid
            \<and> strategy_used res = JStr ''custom''
            \<and> r_confidence res = JFloat (Fin (1 / 2))
            \<and> r_reasoning res = JStr ''Default fallback to custom search''
            \<and> r_context_used res = JBool False"
    by (simp add: returned_def)
  have recorded: "\<exists>m. history_after (retrieve cfg w db q (Some uid)) uid
                   = Some (m # (if max_session_messages cfg = 0 then db (get_session_key uid)
                                else take (nat (max_session_messages cfg) - 1)
                                       (db (get_session_key uid))))
               \<and> timestamp m = now_iso w \<and> m_query m = q
               \<and> m_strategy_used m = JStr ''custom''
               \<and> m_reasoning m = JStr ''Default fallback to custom search''"
    if "0 \<le> max_session_messages cfg" and "0 < session_ttl cfg"
  proof -
    from that have sm: "0 \<le> max_messages (session_memory cfg)"
      "0 < sm_session_ttl (session_memory cfg)"
      by (simp_all add: session_memory_def)
    from assms(2) have answers: "3 \<le> redis_write_answers w"
      by (simp add: redis_up_write_def)
    note written = add_message_head [OF sm answers, of "str_of w" "now_iso w" db uid q
        "\<lparr> rd_strategy_used = JStr ''custom'', rd_document_count = 0,
           rd_reasoning = JStr ''Default fallback to custom search'', rd_documents = [] \<rparr>"]
    from run written show ?thesis
      by (simp add: history_after_def history_read session_memory_def)
  qed
  from decided recorded show ?thesis
    by blast
qed

theorem json_failure_uses_fallback_witness:
  "redis_up_read bad_json_world \<and> redis_up_write bad_json_world
   \<and> llm_invoke bad_json_world ''q''
        (summarize_conversation (str_of bad_json_world) (busy_store (get_session_key ''u'')))
       = Response JSONDecodeError
   \<and> 0 \<le> max_session_messages default_config \<and> 0 < session_ttl default_config
   \<and> map_option strategy_used
        (returned (retrieve default_config bad_json_world busy_store ''q'' (Some ''u'')))
       = Some (JStr ''custom'')
   \<and> map_option r_confidence
        (returned (retrieve default_config bad_json_world busy_store ''q'' (Some ''u'')))
       = Some (JFloat (Fin (1 / 2)))
   \<and> map_option r_reasoning
        (returned (retrieve default_config bad_json_world busy_store ''q'' (Some ''u'')))
       = Some (JStr ''Default fallback to custom search'')
   \<and> map_option r_context_used
        (returned (retrieve default_config bad_json_world busy_store ''q'' (Some ''u'')))
       = Some (JBool False)
   \<and> map_option (map m_query)
        (history_after (retrieve default_config bad_json_world busy_store ''q'' (Some ''u'')) ''u'')
       = Some [''q'', ''earlier question'']"
proof -
  have h1: "redis_up_read bad_json_world" and h2: "redis_up_write bad_json_world"
    by (simp_all add: bad_json_world_def example_world_def redis_up_write_def)
  have h3: "llm_invoke bad_json_world ''q''
              (summarize_conversation (str_of bad_json_world) (busy_store (get_session_key ''u'')))
            = Response JSONDecodeError"
    by (simp add: bad_json_world_def example_world_def)
  have h4: "0 \<le> max_session_messages default_config" and h5: "0 < session_ttl default_config"
    by (simp_all add: default_config_def)
  note inst = json_failure_uses_fallback
         [of bad_json_world "''q''" busy_store "''u''" default_config, OF h1 h2 h3]
  from inst obtain res where
    res: "returned (retrieve default_config bad_json_world busy_store ''q'' (Some ''u''))
          = Some res"
      "strategy_used res = JStr ''custom''" "r_confidence res = JFloat (Fin (1 / 2))"
      "r_reasoning res = JStr ''Default fallback to custom search''"
      "r_context_used res = JBool False"
    by blast
  from inst h4 h5 obtain m where
    m: "history_after (retrieve default_config bad_json_world busy_store ''q'' (Some ''u'')) ''u''
        = Some (m # (if max_session_messages default_config = 0
                     then busy_store (get_session_key ''u'')
                     else take (nat (max_session_messages default_config) - 1)
                            (busy_store (get_session_key ''u''))))"
       "m_query m = ''q''"
    by blast
  from m have recorded: "map_option (map m_query)
        (history_after (retrieve default_config bad_json_world busy_store ''q'' (Some ''u'')) ''u'')
       = Some [''q'', ''earlier question'']"
    by (simp add: default_config_def busy_store_def empty_store_def get_session_key_def
        example_message_def)
  from h1 h2 h3 h4 h5 res recorded show ?thesis
    by simp
qed

text \<open>
  C2 as stated fails: when the classifier call raises, or its JSON lacks a key, the run
  ends with that exception; the reasoning of the fallback is not \<open>"default fallback"\<close>;
  after a JSON failure the run still ends with an exception when the session store
  does not answer the write; and with \<open>session_ttl = 0\<close>, or with
  \<open>max_session_messages = -1\<close> on an empty history, the turn completes but is not in
  the history.
\<close>

theorem classifier_failure_counterexample:
  "raised (retrieve default_config failing_llm_world empty_store ''q'' (Some ''u'')) = Some LLMError
   \<and> raised (retrieve default_config partial_decision_world empty_store ''q'' (Some ''u''))
       = Some KeyError
   \<and> map_option r_reasoning
        (returned (retrieve default_config bad_json_world empty_store ''q'' (Some ''u'')))
       = Some (JStr ''Default fallback to custom search'')
   \<and> JStr ''Default fallback to custom search'' \<noteq> JStr ''default fallback''
   \<and> raised (retrieve default_config (bad_json_world\<lparr> redis_write_answers := 0 \<rparr>)
               empty_store ''q'' (Some ''u''))
       = Some RedisError
   \<and> history_after (retrieve (default_config\<lparr> session_ttl := 0 \<rparr>) bad_json_world
                      empty_store ''q'' (Some ''u'')) ''u''
       = Some []
   \<and> history_after (retrieve (default_config\<lparr> max_session_messages := - 1 \<rparr>) bad_json_world
                      empty_store ''q'' (Some ''u'')) ''u''
       = Some []"
  by (simp add: run_defs outcome_defs example_defs)

text \<open>
  C10. When the classifier's output fails JSON parsing (and the session store is
  reachable, so that a result is returned), the state's \<open>conversation_history\<close> is
  reset to the empty list (\<open>analyze_fallback\<close>) and \<open>conversation_length\<close> is 0 whatever
  the user's history holds, although the classifier was called with the summary of
  that history.
\<close>

theorem json_failure_resets_conversation_length:
  assumes "redis_up_read w" and "redis_up_write w"
    and "llm_invoke w q (summarize_conversation (str_of w) (db (get_session_key uid)))
         = Response JSONDecodeError"
  shows "map_option conversation_length (returned (retrieve cfg w db q (Some uid))) = Some 0
       \<and> calls_made (retrieve cfg w db q (Some uid))
           = Some [HistoryRead uid,
                   Classify q (summarize_conversation (str_of w) (db (get_session_key uid))),
                   HistoryWrite uid]"
proof -
  from retrieve_fallback
         [where user_id_arg = "Some uid" and cfg = cfg and w = w and db = db and q = q
            and uid = uid, OF assms(1,2) _ assms(3)]
  show ?thesis
    by (simp add: returned_def calls_made_def)
qed

theorem json_failure_resets_conversation_length_witness:
  "redis_up_read bad_json_world \<and> redis_up_write bad_json_world
   \<and> llm_invoke bad_json_world ''next question''
        (summarize_conversation (str_of bad_json_world) (busy_store (get_session_key ''u'')))
       = Response JSONDecodeError
   \<and> get_conversation_context True busy_store ''u'' = Inr [example_message]
   \<and> map_option conversation_length
        (returned (retrieve default_config bad_json_world busy_store ''next question'' (Some ''u'')))
       = Some 0
   \<and> calls_made (retrieve default_config bad_json_world busy_store ''next question'' (Some ''u''))
       = Some [HistoryRead ''u'',
               Classify ''next question''
                 (summarize_conversation example_str [example_message]),
               HistoryWrite ''u'']"
proof -
  have h1: "redis_up_read bad_json_world" and h2: "redis_up_write bad_json_world"
    by (simp_all add: bad_json_world_def example_world_def redis_up_write_def)
  have h3: "llm_invoke bad_json_world ''next question''
              (summarize_conversation (str_of bad_json_world) (busy_store (get_session_key ''u'')))
            = Response JSONDecodeError"
    by (simp add: bad_json_world_def example_world_def)
  have h: "get_conversation_context True busy_store ''u'' = Inr [example_message]"
    by (simp add: history_read busy_store_def get_session_key_def)
  from json_failure_resets_conversation_length
         [of bad_json_world "''next question''" busy_store "''u''" default_config, OF h1 h2 h3]
       h1 h2 h3 h
  show ?thesis
    by (simp add: bad_json_world_def example_world_def busy_store_def get_session_key_def)
qed

text \<open>
  C6 (as amended). Nothing validates the input. A call with an empty query and no
  \<open>user_id\<close> runs as user \<open>default_user\<close> like any other call: for instance, when the
  classifier names \<open>web\<close> with confidence at least 0.6 and the session store is
  reachable, the history is read, the classifier and the web search are called with
  the empty query, the turn is written, and a result is returned.
\<close>

theorem empty_query_is_processed:
  assumes "redis_up_read w" and "redis_up_write w"
    and "llm_invoke w [] (summarize_conversation (str_of w) (db (get_session_key ''default_user'')))
         = Response (Loaded (JObj d))"
    and "map_of d ''strategy'' = Some (JStr ''web'')"
    and "map_of d ''confidence'' = Some conf"
    and "map_of d ''reasoning'' = Some reason"
    and "py_lt conf low_confidence_bound = Inr False"
  shows "returned (retrieve cfg w db [] None)
           = Some \<lparr> r_query = [], r_user_id = ''default_user'',
                    r_documents = web_get_relevant_documents w (web_search_max_results cfg) [],
                    strategy_used = JStr ''web'',
                    r_confidence = conf,
                    r_reasoning = reason,
                    r_context_used = dict_get d ''context_used'' (JBool False),
                    document_count =
                      length (web_get_relevant_documents w (web_search_max_results cfg) []),
                    conversation_length = length (db (get_session_key ''default_user'')) \<rparr>
       \<and> calls_made (retrieve cfg w db [] None)
           = Some [HistoryRead ''default_user'',
                   Classify []
                     (summarize_conversation (str_of w) (db (get_session_key ''default_user''))),
                   WebSearch [],
                   HistoryWrite ''default_user'']"
proof -
  from retrieve_web
         [where user_id_arg = None and cfg = cfg and w = w and db = db and q = "[]"
            and uid = "''default_user''", OF assms(1,2) _ assms(3,4,5,6,7) refl]
  show ?thesis
    by (simp add: returned_def calls_made_def)
qed

theorem empty_query_is_processed_witness:
  "redis_up_read example_world \<and> redis_up_write example_world
   \<and> llm_invoke example_world []
        (summarize_conversation (str_of example_world) (empty_store (get_session_key ''default_user'')))
       = Response (Loaded (decision ''web'' (8106479329266893 / 9007199254740992)))
   \<and> py_lt (JFloat (Fin (8106479329266893 / 9007199254740992))) low_confidence_bound = Inr False
   \<and> map_option r_documents (returned (retrieve default_config example_world empty_store [] None))
       = Some [example_web_document ''alpha'' 1 [], example_web_document ''beta'' 2 []]
   \<and> calls_made (retrieve default_config example_world empty_store [] None)
       = Some [HistoryRead ''default_user'', Classify [] ''No previous conversation.'',
               WebSearch [], HistoryWrite ''default_user'']"
proof -
  have h1: "redis_up_read example_world" and h2: "redis_up_write example_world"
    by (simp_all add: example_world_def redis_up_write_def)
  have h3: "llm_invoke example_world []
              (summarize_conversation (str_of example_world)
                 (empty_store (get_session_key ''default_user'')))
            = Response (Loaded (JObj [(''strategy'', JStr ''web''),
                 (''confidence'', JFloat (Fin (8106479329266893 / 9007199254740992))),
                 (''reasoning'', JStr ''because''), (''context_used'', JBool False)]))"
    by (simp add: example_world_def decision_def)
  have h4: "map_of [(''strategy'', JStr ''web''),
                 (''confidence'', JFloat (Fin (8106479329266893 / 9007199254740992))),
                 (''reasoning'', JStr ''because''), (''context_used'', JBool False)] ''strategy''
            = Some (JStr ''web'')"
    and h5: "map_of [(''strategy'', JStr ''web''),
                 (''confidence'', JFloat (Fin (8106479329266893 / 9007199254740992))),
                 (''reasoning'', JStr ''because''), (''context_used'', JBool False)] ''confidence''
            = Some (JFloat (Fin (8106479329266893 / 9007199254740992)))"
    and h6: "map_of [(''strategy'', JStr ''web''),
                 (''confidence'', JFloat (Fin (8106479329266893 / 9007199254740992))),
                 (''reasoning'', JStr ''because''), (''context_used'', JBool False)] ''reasoning''
            = Some (JStr ''because'')"
    by simp_all
  have h7: "py_lt (JFloat (Fin (8106479329266893 / 9007199254740992))) low_confidence_bound
            = Inr False"
    by (simp add: py_lt_def low_confidence_bound_def)
  from empty_query_is_processed
         [where w = example_world and db = empty_store and cfg = default_config,
          OF h1 h2 h3 h4 h5 h6 h7]
       h1 h2 h3 h7
  show ?thesis
    by (simp add: example_defs run_defs)
qed

text \<open>
  C6 as stated fails: the empty query without a user gets a result, after a
  classification, a web search and a session write.
\<close>

theorem validation_counterexample:
  "returned (retrieve default_config example_world empty_store [] None)
     = Some \<lparr> r_query = [], r_user_id = ''default_user'',
              r_documents = [example_web_document ''alpha'' 1 [], example_web_document ''beta'' 2 []],
              strategy_used = JStr ''web'',
              r_confidence = JFloat (Fin (8106479329266893 / 9007199254740992)),
              r_reasoning = JStr ''because'', r_context_used = JBool False,
              document_count = 2, conversation_length = 0 \<rparr>
   \<and> calls_made (retrieve default_config example_world empty_store [] None)
     = Some [HistoryRead ''default_user'', Classify [] ''No previous conversation.'',
             WebSearch [], HistoryWrite ''default_user'']
   \<and> history_after (retrieve default_config example_world empty_store [] None) ''default_user''
     = Some [\<lparr> timestamp = ''2024-05-01T12:00:00'', m_query = [],
               m_strategy_used = JStr ''web'', m_document_count = 2,
               m_reasoning = JStr ''because'',
               key_points = [''From web_search: alpha...'', ''From web_search: beta...''] \<rparr>]"
  by (simp add: run_defs outcome_defs example_defs)

end
